theory Spec2Isabelle
  imports Complex_Main
begin

section \<open>JavaScript numbers\<close>

text \<open>
  A JavaScript \<^verbatim>\<open>number\<close> is NaN, one of the two infinities, or a finite value. Finite
  values are read as the real numbers they denote and arithmetic on them is exact; the
  two zeros are identified. Comparisons with NaN are false, as in the language.
\<close>

datatype jsnum = NaN | NegInf | Fin real | PosInf

fun js_isNaN :: "jsnum \<Rightarrow> bool" where
  "js_isNaN NaN = True"
| "js_isNaN _ = False"

fun js_le :: "jsnum \<Rightarrow> jsnum \<Rightarrow> bool" where
  "js_le NaN _ = False"
| "js_le _ NaN = False"
| "js_le NegInf _ = True"
| "js_le _ PosInf = True"
| "js_le (Fin a) (Fin b) = (a \<le> b)"
| "js_le _ _ = False"

fun js_mul :: "jsnum \<Rightarrow> jsnum \<Rightarrow> jsnum" where
  "js_mul NaN _ = NaN"
| "js_mul _ NaN = NaN"
| "js_mul (Fin a) (Fin b) = Fin (a * b)"
| "js_mul (Fin a) PosInf = (if a = 0 then NaN else if 0 < a then PosInf else NegInf)"
| "js_mul (Fin a) NegInf = (if a = 0 then NaN else if 0 < a then NegInf else PosInf)"
| "js_mul PosInf (Fin b) = (if b = 0 then NaN else if 0 < b then PosInf else NegInf)"
| "js_mul NegInf (Fin b) = (if b = 0 then NaN else if 0 < b then NegInf else PosInf)"
| "js_mul PosInf PosInf = PosInf"
| "js_mul NegInf NegInf = PosInf"
| "js_mul PosInf NegInf = NegInf"
| "js_mul NegInf PosInf = NegInf"

fun js_div :: "jsnum \<Rightarrow> jsnum \<Rightarrow> jsnum" where
  "js_div NaN _ = NaN"
| "js_div _ NaN = NaN"
| "js_div (Fin a) (Fin b) =
     (if b = 0 then (if a = 0 then NaN else if 0 < a then PosInf else NegInf)
      else Fin (a / b))"
| "js_div (Fin a) _ = Fin 0"
| "js_div PosInf (Fin b) = (if 0 \<le> b then PosInf else NegInf)"
| "js_div NegInf (Fin b) = (if 0 \<le> b then NegInf else PosInf)"
| "js_div _ _ = NaN"

text \<open>
  \<^verbatim>\<open>clamp(number, lower, upper)\<close> of lodash-es: a NaN bound counts as 0, a NaN number is
  returned as it is, any other number is cut to \<^verbatim>\<open>upper\<close> first and to \<^verbatim>\<open>lower\<close> second.
\<close>

definition clamp :: "jsnum \<Rightarrow> jsnum \<Rightarrow> jsnum \<Rightarrow> jsnum" where
  "clamp number lower upper =
     (let upper' = (if js_isNaN upper then Fin 0 else upper);
          lower' = (if js_isNaN lower then Fin 0 else lower)
      in if js_isNaN number then number
         else (let n1 = (if js_le number upper' then number else upper')
               in if js_le lower' n1 then n1 else lower'))"

text \<open>\<^verbatim>\<open>xs.slice(start, end)\<close> for indices that are not negative.\<close>

definition slice :: "'a list \<Rightarrow> nat \<Rightarrow> nat \<Rightarrow> 'a list" where
  "slice xs start end' = take (end' - start) (drop start xs)"

text \<open>The closed interval from 0 to 1, in which an opacity lies.\<close>

fun in_unit_interval :: "jsnum \<Rightarrow> bool" where
  "in_unit_interval (Fin x) = (0 \<le> x \<and> x \<le> 1)"
| "in_unit_interval _ = False"


section \<open>The store, its actions and the calls a handler makes\<close>

text \<open>
  The request body the queue endpoint takes: \<^verbatim>\<open>{ batch: { graph, workflow, runs }, prepend }\<close>.
\<close>

record ('g, 'k) Batch =
  graph :: 'g
  workflow :: 'k
  runs :: jsnum

record ('g, 'k) BatchConfig =
  batch :: "('g, 'k) Batch"
  prepend :: bool

text \<open>
  What the files dispatch. The entity identifier \<open>'e\<close>, the control adapter and IP adapter
  configurations \<open>'c\<close> and \<open>'i\<close>, the graph \<open>'g\<close> and the workflow \<open>'k\<close> are values the
  files pass on without looking inside. \<open>enqueueRequested\<close> carries the payload fields
  \<^verbatim>\<open>tabName\<close> and \<^verbatim>\<open>prepend\<close>; \<open>enqueueBatch_initiate\<close> is the thunk
  \<^verbatim>\<open>queueApi.endpoints.enqueueBatch.initiate(arg, { fixedCacheKey })\<close>; \<open>otherAction\<close> stands
  for every action type of the application that these files do not name.
\<close>

datatype ('e, 'c, 'i, 'g, 'k) action =
    logLevelChanged string
  | entityOpacityChanged 'e jsnum
  | inpaintMaskAdded
  | rgAdded
  | rasterLayerAdded bool
  | controlLayerAdded bool 'c
  | ipaAdded 'i
  | enqueueRequested string bool
  | enqueueBatch_initiate "('g, 'k) BatchConfig" string
  | otherAction string

text \<open>
  A handler acts on the outside only through calls: it dispatches an action, or it calls
  a method of the request handle that an earlier dispatch returned, \<^verbatim>\<open>reset()\<close> or, to
  cancel the request, \<^verbatim>\<open>abort()\<close>. The handle is the position of that dispatch among the
  calls made so far.
\<close>

datatype 'a call = Dispatch 'a | ReqReset nat | ReqAbort nat

text \<open>
  The part of the root state the files read; \<open>generation_iterations\<close> is
  \<^verbatim>\<open>state.generation.iterations\<close>, the other compound names likewise.
\<close>

record ('e, 'n) RootState =
  system_logLevel :: string
  system_logIsEnabled :: bool
  canvasV2_selectedEntityIdentifier :: "'e option"
  nodes :: 'n
  generation_iterations :: jsnum

text \<open>
  The world a handler runs in: the store's state and the calls made so far, oldest first.
  How the store and the API service react to a call is theirs to decide, so it is the
  parameter \<open>react\<close> of everything below.
\<close>

record ('s, 'a) world =
  store :: 's
  calls :: "'a call list"

definition perform :: "('a call \<Rightarrow> 's \<Rightarrow> 's) \<Rightarrow> 'a call \<Rightarrow> ('s, 'a) world \<Rightarrow> ('s, 'a) world" where
  "perform react c w = \<lparr>store = react c (store w), calls = calls w @ [c]\<rparr>"

text \<open>\<^verbatim>\<open>dispatch(a)\<close> returns the handle of the request it started, and the new world.\<close>

definition dispatch :: "('a call \<Rightarrow> 's \<Rightarrow> 's) \<Rightarrow> 'a \<Rightarrow> ('s, 'a) world \<Rightarrow> nat \<times> ('s, 'a) world" where
  "dispatch react a w = (length (calls w), perform react (Dispatch a) w)"

definition reset :: "('a call \<Rightarrow> 's \<Rightarrow> 's) \<Rightarrow> nat \<Rightarrow> ('s, 'a) world \<Rightarrow> ('s, 'a) world" where
  "reset react req w = perform react (ReqReset req) w"

text \<open>The store's state after the store has reacted to a list of calls, one after the other.\<close>

definition react_all :: "('a call \<Rightarrow> 's \<Rightarrow> 's) \<Rightarrow> 'a call list \<Rightarrow> 's \<Rightarrow> 's" where
  "react_all react cs s = foldl (\<lambda>s c. react c s) s cs"


section \<open>CanvasAddEntityButtons\<close>

text \<open>The five buttons of the component, in the order in which it renders them.\<close>

datatype button =
  InpaintMaskButton | RegionalGuidanceButton | RasterLayerButton | ControlLayerButton
  | IPAdapterButton

definition addInpaintMask ::
  "(('e, 'c, 'i, 'g, 'k) action call \<Rightarrow> 's \<Rightarrow> 's) \<Rightarrow> ('s, ('e, 'c, 'i, 'g, 'k) action) world
    \<Rightarrow> ('s, ('e, 'c, 'i, 'g, 'k) action) world" where
  "addInpaintMask react w = snd (dispatch react inpaintMaskAdded w)"

definition addRegionalGuidance ::
  "(('e, 'c, 'i, 'g, 'k) action call \<Rightarrow> 's \<Rightarrow> 's) \<Rightarrow> ('s, ('e, 'c, 'i, 'g, 'k) action) world
    \<Rightarrow> ('s, ('e, 'c, 'i, 'g, 'k) action) world" where
  "addRegionalGuidance react w = snd (dispatch react rgAdded w)"

definition addRasterLayer ::
  "(('e, 'c, 'i, 'g, 'k) action call \<Rightarrow> 's \<Rightarrow> 's) \<Rightarrow> ('s, ('e, 'c, 'i, 'g, 'k) action) world
    \<Rightarrow> ('s, ('e, 'c, 'i, 'g, 'k) action) world" where
  "addRasterLayer react w = snd (dispatch react (rasterLayerAdded True) w)"

definition addControlLayer ::
  "(('e, 'c, 'i, 'g, 'k) action call \<Rightarrow> 's \<Rightarrow> 's) \<Rightarrow> 'c
    \<Rightarrow> ('s, ('e, 'c, 'i, 'g, 'k) action) world \<Rightarrow> ('s, ('e, 'c, 'i, 'g, 'k) action) world" where
  "addControlLayer react defaultControlAdapter w =
     snd (dispatch react (controlLayerAdded True defaultControlAdapter) w)"

definition addIPAdapter ::
  "(('e, 'c, 'i, 'g, 'k) action call \<Rightarrow> 's \<Rightarrow> 's) \<Rightarrow> 'i
    \<Rightarrow> ('s, ('e, 'c, 'i, 'g, 'k) action) world \<Rightarrow> ('s, ('e, 'c, 'i, 'g, 'k) action) world" where
  "addIPAdapter react defaultIPAdapter w = snd (dispatch react (ipaAdded defaultIPAdapter) w)"

text \<open>The \<^verbatim>\<open>onClick\<close> wiring of the rendered buttons.\<close>

fun onClick ::
  "(('e, 'c, 'i, 'g, 'k) action call \<Rightarrow> 's \<Rightarrow> 's) \<Rightarrow> 'c \<Rightarrow> 'i \<Rightarrow> button
    \<Rightarrow> ('s, ('e, 'c, 'i, 'g, 'k) action) world \<Rightarrow> ('s, ('e, 'c, 'i, 'g, 'k) action) world" where
  "onClick react dca dipa InpaintMaskButton w = addInpaintMask react w"
| "onClick react dca dipa RegionalGuidanceButton w = addRegionalGuidance react w"
| "onClick react dca dipa RasterLayerButton w = addRasterLayer react w"
| "onClick react dca dipa ControlLayerButton w = addControlLayer react dca w"
| "onClick react dca dipa IPAdapterButton w = addIPAdapter react dipa w"


section \<open>SettingsLogLevelSelect\<close>

text \<open>
  An option of the combobox, \<^verbatim>\<open>{ label, value }\<close>. The change handler receives an option
  or \<^verbatim>\<open>null\<close>.
\<close>

record ComboboxOption =
  option_label :: string
  option_value :: string

datatype error = TypeError

text \<open>
  \<^verbatim>\<open>onChange\<close>. The guard \<^verbatim>\<open>isLogLevel\<close> comes from the logging module and is a
  parameter; it is applied to \<^verbatim>\<open>v?.value\<close>, which is \<^verbatim>\<open>undefined\<close> (here \<open>None\<close>) when \<open>v\<close>
  is \<^verbatim>\<open>null\<close>. Reading \<^verbatim>\<open>v.value\<close> of a \<^verbatim>\<open>null\<close> option throws.
\<close>

definition onChange ::
  "(('e, 'c, 'i, 'g, 'k) action call \<Rightarrow> 's \<Rightarrow> 's) \<Rightarrow> (string option \<Rightarrow> bool)
    \<Rightarrow> ComboboxOption option \<Rightarrow> ('s, ('e, 'c, 'i, 'g, 'k) action) world
    \<Rightarrow> error + ('s, ('e, 'c, 'i, 'g, 'k) action) world" where
  "onChange react isLogLevel v w =
     (if \<not> isLogLevel (map_option option_value v) then Inr w
      else (case v of
              None \<Rightarrow> Inl TypeError
            | Some opt \<Rightarrow> Inr (snd (dispatch react (logLevelChanged (option_value opt)) w))))"


section \<open>CanvasEntityOpacity\<close>

definition mapSliderValueToOpacity :: "jsnum \<Rightarrow> jsnum" where
  "mapSliderValueToOpacity value' = js_div value' (Fin 100)"

definition mapOpacityToSliderValue :: "jsnum \<Rightarrow> jsnum" where
  "mapOpacityToSliderValue opacity = js_mul opacity (Fin 100)"

definition marks :: "jsnum list" where
  "marks =
     [mapOpacityToSliderValue (Fin 0),
      mapOpacityToSliderValue (Fin 0.25),
      mapOpacityToSliderValue (Fin 0.5),
      mapOpacityToSliderValue (Fin 0.75),
      mapOpacityToSliderValue (Fin 1)]"

definition sliderDefaultValue :: jsnum where
  "sliderDefaultValue = mapOpacityToSliderValue (Fin 100)"

definition snapCandidates :: "jsnum list" where
  "snapCandidates = slice marks 1 (length marks - 1)"

text \<open>
  \<^verbatim>\<open>onChangeSlider\<close>. \<open>snapToNearest\<close> comes from the canvas utilities and \<open>shift\<close> is what
  \<^verbatim>\<open>$shift.get()\<close> returns; both are parameters. \<open>selectedEntityIdentifier\<close> is \<open>None\<close> when
  the store holds \<^verbatim>\<open>null\<close>.
\<close>

definition onChangeSlider ::
  "(('e, 'c, 'i, 'g, 'k) action call \<Rightarrow> 's \<Rightarrow> 's) \<Rightarrow> (jsnum \<Rightarrow> jsnum list \<Rightarrow> jsnum \<Rightarrow> jsnum)
    \<Rightarrow> bool \<Rightarrow> 'e option \<Rightarrow> jsnum \<Rightarrow> ('s, ('e, 'c, 'i, 'g, 'k) action) world
    \<Rightarrow> ('s, ('e, 'c, 'i, 'g, 'k) action) world" where
  "onChangeSlider react snapToNearest shift selectedEntityIdentifier opacity w =
     (case selectedEntityIdentifier of
        None \<Rightarrow> w
      | Some entityIdentifier \<Rightarrow>
          (let snappedOpacity =
                 (if \<not> shift then snapToNearest opacity snapCandidates (Fin 2) else opacity);
               mappedOpacity = mapSliderValueToOpacity snappedOpacity
           in snd (dispatch react (entityOpacityChanged entityIdentifier mappedOpacity) w)))"

text \<open>
  \<^verbatim>\<open>onBlur\<close> returns the local opacity as the handler itself leaves it, and the world;
  what the component's effect on the store's opacity sets afterwards is not the handler's.
  \<^verbatim>\<open>Number(localOpacity)\<close> is \<open>localOpacity\<close>, which is a number already.
\<close>

definition onBlur ::
  "(('e, 'c, 'i, 'g, 'k) action call \<Rightarrow> 's \<Rightarrow> 's) \<Rightarrow> 'e option \<Rightarrow> jsnum
    \<Rightarrow> ('s, ('e, 'c, 'i, 'g, 'k) action) world
    \<Rightarrow> jsnum \<times> ('s, ('e, 'c, 'i, 'g, 'k) action) world" where
  "onBlur react selectedEntityIdentifier localOpacity w =
     (case selectedEntityIdentifier of
        None \<Rightarrow> (localOpacity, w)
      | Some entityIdentifier \<Rightarrow>
          (if js_isNaN localOpacity then (Fin 100, w)
           else (localOpacity,
                 snd (dispatch react
                        (entityOpacityChanged entityIdentifier
                           (clamp (js_div localOpacity (Fin 100)) (Fin 0) (Fin 1))) w))))"

definition onChangeNumberInput :: "string \<Rightarrow> jsnum \<Rightarrow> jsnum" where
  "onChangeNumberInput valueAsString valueAsNumber = valueAsNumber"

definition onKeyDown ::
  "(('e, 'c, 'i, 'g, 'k) action call \<Rightarrow> 's \<Rightarrow> 's) \<Rightarrow> 'e option \<Rightarrow> jsnum \<Rightarrow> string
    \<Rightarrow> ('s, ('e, 'c, 'i, 'g, 'k) action) world
    \<Rightarrow> jsnum \<times> ('s, ('e, 'c, 'i, 'g, 'k) action) world" where
  "onKeyDown react selectedEntityIdentifier localOpacity key w =
     (if key = ''Enter'' then onBlur react selectedEntityIdentifier localOpacity w
      else (localOpacity, w))"


section \<open>The listener for enqueue requests of the nodes tab\<close>

fun predicate :: "('e, 'c, 'i, 'g, 'k) action \<Rightarrow> bool" where
  "predicate (enqueueRequested tabName prepend') = (tabName = ''nodes'')"
| "predicate _ = False"

text \<open>
  \<^verbatim>\<open>effect\<close>, on the payload of the action that the predicate has accepted.
  \<open>buildNodesGraph\<close> and \<open>buildWorkflow\<close> come from the nodes feature and are parameters.
\<close>

definition effect ::
  "(('e, 'c, 'i, 'g, 'k) action call \<Rightarrow> ('e, 'n) RootState \<Rightarrow> ('e, 'n) RootState)
    \<Rightarrow> ('n \<Rightarrow> 'g) \<Rightarrow> ('n \<Rightarrow> 'k) \<Rightarrow> string \<Rightarrow> bool
    \<Rightarrow> (('e, 'n) RootState, ('e, 'c, 'i, 'g, 'k) action) world
    \<Rightarrow> (('e, 'n) RootState, ('e, 'c, 'i, 'g, 'k) action) world" where
  "effect react buildNodesGraph buildWorkflow tabName prepend' w =
     (let state = store w;
          graph' = buildNodesGraph (nodes state);
          workflow' = buildWorkflow (nodes state);
          batchConfig =
            \<lparr>batch = \<lparr>graph = graph', workflow = workflow', runs = generation_iterations state\<rparr>,
             prepend = prepend'\<rparr>;
          (req, w') = dispatch react (enqueueBatch_initiate batchConfig ''enqueueBatch'') w
      in reset react req w')"

text \<open>
  \<^verbatim>\<open>startAppListening({ predicate, effect })\<close>: the listener middleware runs the effect on
  an action that the predicate accepts, and on no other.
\<close>

definition addEnqueueRequestedNodes ::
  "(('e, 'c, 'i, 'g, 'k) action call \<Rightarrow> ('e, 'n) RootState \<Rightarrow> ('e, 'n) RootState)
    \<Rightarrow> ('n \<Rightarrow> 'g) \<Rightarrow> ('n \<Rightarrow> 'k) \<Rightarrow> ('e, 'c, 'i, 'g, 'k) action
    \<Rightarrow> (('e, 'n) RootState, ('e, 'c, 'i, 'g, 'k) action) world
    \<Rightarrow> (('e, 'n) RootState, ('e, 'c, 'i, 'g, 'k) action) world" where
  "addEnqueueRequestedNodes react buildNodesGraph buildWorkflow a w =
     (if predicate a
      then (case a of
              enqueueRequested tabName prepend' \<Rightarrow>
                effect react buildNodesGraph buildWorkflow tabName prepend' w
            | _ \<Rightarrow> w)
      else w)"


section \<open>What a handler did\<close>

text \<open>The calls that were made between the world \<open>w\<close> and the later world \<open>w'\<close>.\<close>

definition new_calls :: "('s, 'a) world \<Rightarrow> ('s, 'a) world \<Rightarrow> 'a call list" where
  "new_calls w w' = drop (length (calls w)) (calls w')"

text \<open>
  Between \<open>w\<close> and \<open>w'\<close> calls were only added, and the store's state in \<open>w'\<close> is the one
  that the store's own reactions to these calls have made of its state in \<open>w\<close>.
\<close>

definition only_calls :: "('a call \<Rightarrow> 's \<Rightarrow> 's) \<Rightarrow> ('s, 'a) world \<Rightarrow> ('s, 'a) world \<Rightarrow> bool" where
  "only_calls react w w' \<longleftrightarrow>
     take (length (calls w)) (calls w') = calls w
     \<and> store w' = react_all react (new_calls w w') (store w)"

fun is_enqueueBatch :: "('e, 'c, 'i, 'g, 'k) action call \<Rightarrow> bool" where
  "is_enqueueBatch (Dispatch (enqueueBatch_initiate cfg key)) = True"
| "is_enqueueBatch _ = False"

text \<open>A call that is made on the request handle \<open>req\<close>.\<close>

fun on_handle :: "nat \<Rightarrow> 'a call \<Rightarrow> bool" where
  "on_handle req (ReqReset r) = (r = req)"
| "on_handle req (ReqAbort r) = (r = req)"
| "on_handle req (Dispatch a) = False"

fun opacity_ok :: "('e, 'c, 'i, 'g, 'k) action call \<Rightarrow> bool" where
  "opacity_ok (Dispatch (entityOpacityChanged e opacity)) = in_unit_interval opacity"
| "opacity_ok _ = True"


section \<open>Sample surroundings\<close>

text \<open>
  Concrete surroundings to run the handlers in: a store that counts the calls it has
  seen, a store that ignores them, an empty world over each, a log level guard, and a
  snapping function (the first candidate within the threshold of the value, the value
  itself when there is none).
\<close>

definition count_calls :: "'a call \<Rightarrow> nat \<Rightarrow> nat" where
  "count_calls c s = Suc s"

definition ignore_calls :: "'a call \<Rightarrow> 's \<Rightarrow> 's" where
  "ignore_calls c s = s"

definition fresh :: "(nat, (nat, unit, unit, nat, nat) action) world" where
  "fresh = \<lparr>store = 0, calls = []\<rparr>"

definition sample_state :: "(nat, nat) RootState" where
  "sample_state =
     \<lparr>system_logLevel = ''info'', system_logIsEnabled = True,
      canvasV2_selectedEntityIdentifier = None, nodes = 3, generation_iterations = Fin 2\<rparr>"

definition fresh_app :: "((nat, nat) RootState, (nat, unit, unit, nat, nat) action) world" where
  "fresh_app = \<lparr>store = sample_state, calls = []\<rparr>"

definition sample_isLogLevel :: "string option \<Rightarrow> bool" where
  "sample_isLogLevel v = (v = Some ''debug'' \<or> v = Some ''info'')"

fun sample_snap :: "jsnum \<Rightarrow> jsnum list \<Rightarrow> jsnum \<Rightarrow> jsnum" where
  "sample_snap (Fin v) (Fin c # cs) (Fin t) =
     (if \<bar>v - c\<bar> \<le> t then Fin c else sample_snap (Fin v) cs (Fin t))"
| "sample_snap v cs t = v"


section \<open>Properties\<close>

subsection \<open>Calls and worlds\<close>

lemma calls_perform: "calls (perform react c w) = calls w @ [c]"
  by (simp add: perform_def)

lemma store_perform: "store (perform react c w) = react c (store w)"
  by (simp add: perform_def)

lemma new_calls_perform: "new_calls w (perform react c w) = [c]"
  by (simp add: new_calls_def perform_def)

lemma new_calls_same: "new_calls w w = []"
  by (simp add: new_calls_def)

lemma only_calls_refl: "only_calls react w w"
  by (simp add: only_calls_def new_calls_def react_all_def)

lemma only_calls_perform: "only_calls react w (perform react c w)"
  by (simp add: only_calls_def new_calls_def react_all_def perform_def)

lemma only_calls_perform2: "only_calls react w (perform react d (perform react c w))"
  by (simp add: only_calls_def new_calls_def react_all_def perform_def)

subsection \<open>Numbers and the constants of the opacity control\<close>

lemma marks_eq: "marks = [Fin 0, Fin 25, Fin 50, Fin 75, Fin 100]"
  by (simp add: marks_def mapOpacityToSliderValue_def)

lemma snapCandidates_eq: "snapCandidates = [Fin 25, Fin 50, Fin 75]"
  by (simp add: snapCandidates_def marks_eq slice_def)

lemma sliderDefaultValue_eq: "sliderDefaultValue = Fin 10000"
  by (simp add: sliderDefaultValue_def mapOpacityToSliderValue_def)

lemma clamp_unit: "\<not> js_isNaN x \<Longrightarrow> in_unit_interval (clamp x (Fin 0) (Fin 1))"
  by (cases x) (auto simp: clamp_def Let_def)

lemma js_div_100_isNaN: "js_isNaN (js_div x (Fin 100)) = js_isNaN x"
  by (cases x) simp_all

subsection \<open>The listener\<close>

lemma effect_eq:
  "effect react buildNodesGraph buildWorkflow tabName p w =
     perform react (ReqReset (length (calls w)))
       (perform react
          (Dispatch (enqueueBatch_initiate
             \<lparr>batch = \<lparr>graph = buildNodesGraph (nodes (store w)),
                       workflow = buildWorkflow (nodes (store w)),
                       runs = generation_iterations (store w)\<rparr>,
              prepend = p\<rparr> ''enqueueBatch'')) w)"
  by (simp add: effect_def dispatch_def reset_def Let_def)

lemma listener_nodes:
  "addEnqueueRequestedNodes react bg bw (enqueueRequested ''nodes'' p) w
     = effect react bg bw ''nodes'' p w"
  by (simp add: addEnqueueRequestedNodes_def)

lemma listener_other: "\<not> predicate a \<Longrightarrow> addEnqueueRequestedNodes react bg bw a w = w"
  by (simp add: addEnqueueRequestedNodes_def)

lemma predicate_iff: "predicate a \<longleftrightarrow> (\<exists>p. a = enqueueRequested ''nodes'' p)"
  by (cases a) auto

text \<open>
  C1. When the listener runs for an \<open>enqueueRequested\<close> action of the tab \<open>nodes\<close>, it
  dispatches the \<open>enqueueBatch\<close> request whose configuration is built from the store's state
  at the start of the effect: the graph is \<open>buildNodesGraph\<close> of the nodes state, the
  workflow is \<open>buildWorkflow\<close> of the nodes state, the runs are the iterations of the
  generation state, and \<open>prepend\<close> is the one of the action's payload.
\<close>

theorem enqueue_batch_serializes_state:
  "new_calls w
     (addEnqueueRequestedNodes react buildNodesGraph buildWorkflow (enqueueRequested ''nodes'' p) w)
    = [Dispatch (enqueueBatch_initiate
         \<lparr>batch = \<lparr>graph = buildNodesGraph (nodes (store w)),
                   workflow = buildWorkflow (nodes (store w)),
                   runs = generation_iterations (store w)\<rparr>,
          prepend = p\<rparr> ''enqueueBatch''),
       ReqReset (length (calls w))]"
  by (simp add: listener_nodes effect_eq new_calls_def calls_perform)

text \<open>
  C4. For a matching \<open>enqueueRequested\<close> action the effect makes two calls: exactly one of
  them dispatches an \<open>enqueueBatch\<close> request, so nothing is retried, and the only call on the
  handle of that request is one \<open>reset\<close>, so the request is not cancelled.
\<close>

theorem enqueue_single_request:
  "length (filter is_enqueueBatch
     (new_calls w (addEnqueueRequestedNodes react bg bw (enqueueRequested ''nodes'' p) w))) = 1
   \<and> filter (on_handle (length (calls w)))
       (new_calls w (addEnqueueRequestedNodes react bg bw (enqueueRequested ''nodes'' p) w))
       = [ReqReset (length (calls w))]
   \<and> length (new_calls w (addEnqueueRequestedNodes react bg bw (enqueueRequested ''nodes'' p) w)) = 2"
  by (simp add: listener_nodes effect_eq new_calls_def calls_perform)

text \<open>
  C9. The predicate accepts exactly the \<open>enqueueRequested\<close> actions whose tab name is
  \<open>nodes\<close>. On every other action, an \<open>enqueueRequested\<close> of another tab included, the
  listener leaves the world as it is; it dispatches an \<open>enqueueBatch\<close> request if and only
  if the predicate accepts the action.
\<close>

theorem listener_runs_only_for_nodes:
  "(predicate a \<longleftrightarrow> (\<exists>p. a = enqueueRequested ''nodes'' p))
   \<and> (\<not> predicate a \<longrightarrow> addEnqueueRequestedNodes react bg bw a w = w)
   \<and> (filter is_enqueueBatch (new_calls w (addEnqueueRequestedNodes react bg bw a w)) \<noteq> []
        \<longleftrightarrow> predicate a)"
proof (cases "predicate a")
  case True
  then obtain p where a: "a = enqueueRequested ''nodes'' p"
    using predicate_iff by blast
  show ?thesis
    unfolding a by (simp add: listener_nodes effect_eq new_calls_def calls_perform)
next
  case False
  then show ?thesis
    by (simp add: predicate_iff listener_other new_calls_same)
qed

theorem listener_runs_only_for_nodes_witness:
  "\<not> predicate (enqueueRequested ''canvas'' True :: (nat, unit, unit, nat, nat) action)
   \<and> addEnqueueRequestedNodes ignore_calls Suc Suc (enqueueRequested ''canvas'' True) fresh_app
       = fresh_app
   \<and> addEnqueueRequestedNodes ignore_calls Suc Suc (otherAction ''socketConnected'') fresh_app
       = fresh_app"
  using listener_runs_only_for_nodes
          [of "enqueueRequested ''canvas'' True" ignore_calls Suc Suc fresh_app]
        listener_runs_only_for_nodes
          [of "otherAction ''socketConnected''" ignore_calls Suc Suc fresh_app]
  by simp

subsection \<open>The add-entity buttons\<close>

text \<open>
  C5. Each click of one of the five add-entity buttons makes exactly one call, the
  dispatch of the action that belongs to the button: \<open>inpaintMaskAdded\<close> for the inpaint
  mask, \<open>rgAdded\<close> for regional guidance, \<open>rasterLayerAdded\<close> with \<open>isSelected\<close> true for the
  raster layer, \<open>controlLayerAdded\<close> with \<open>isSelected\<close> true and the default control adapter
  for the control layer, \<open>ipaAdded\<close> with the default IP adapter for the IP adapter.
\<close>

theorem add_entity_click_dispatches_once:
  "calls (onClick react dca dipa InpaintMaskButton w) = calls w @ [Dispatch inpaintMaskAdded]
   \<and> calls (onClick react dca dipa RegionalGuidanceButton w) = calls w @ [Dispatch rgAdded]
   \<and> calls (onClick react dca dipa RasterLayerButton w) = calls w @ [Dispatch (rasterLayerAdded True)]
   \<and> calls (onClick react dca dipa ControlLayerButton w)
       = calls w @ [Dispatch (controlLayerAdded True dca)]
   \<and> calls (onClick react dca dipa IPAdapterButton w) = calls w @ [Dispatch (ipaAdded dipa)]
   \<and> store (onClick react dca dipa InpaintMaskButton w) = react (Dispatch inpaintMaskAdded) (store w)
   \<and> store (onClick react dca dipa RegionalGuidanceButton w) = react (Dispatch rgAdded) (store w)
   \<and> store (onClick react dca dipa RasterLayerButton w)
       = react (Dispatch (rasterLayerAdded True)) (store w)
   \<and> store (onClick react dca dipa ControlLayerButton w)
       = react (Dispatch (controlLayerAdded True dca)) (store w)
   \<and> store (onClick react dca dipa IPAdapterButton w) = react (Dispatch (ipaAdded dipa)) (store w)"
  by (simp add: addInpaintMask_def addRegionalGuidance_def addRasterLayer_def
      addControlLayer_def addIPAdapter_def dispatch_def calls_perform store_perform)

subsection \<open>The log level selector\<close>

text \<open>
  C2. With a guard that rejects \<^verbatim>\<open>undefined\<close>, the change handler of the log level
  combobox never throws; it dispatches \<open>logLevelChanged\<close> with the value of the option, once
  and as its only call, if the guard accepts that value, and otherwise (the option being
  \<^verbatim>\<open>null\<close> included) it returns with the world, and so the store's log level, as it was.
\<close>

theorem log_level_change:
  assumes "\<not> isLogLevel None"
  shows "case onChange react isLogLevel v w of
           Inl e \<Rightarrow> False
         | Inr w' \<Rightarrow>
             (if isLogLevel (map_option option_value v)
              then \<exists>opt. v = Some opt
                     \<and> new_calls w w' = [Dispatch (logLevelChanged (option_value opt))]
                     \<and> store w' = react (Dispatch (logLevelChanged (option_value opt))) (store w)
              else w' = w)"
  using assms
  by (cases v) (simp_all add: onChange_def dispatch_def new_calls_perform store_perform)

theorem log_level_change_witness:
  "\<not> sample_isLogLevel None
   \<and> onChange count_calls sample_isLogLevel
       (Some \<lparr>option_label = ''info'', option_value = ''info''\<rparr>) fresh
       = Inr \<lparr>store = 1, calls = [Dispatch (logLevelChanged ''info'')]\<rparr>
   \<and> onChange count_calls sample_isLogLevel
       (Some \<lparr>option_label = ''loud'', option_value = ''loud''\<rparr>) fresh = Inr fresh
   \<and> onChange count_calls sample_isLogLevel None fresh = Inr fresh"
proof -
  have h: "\<not> sample_isLogLevel None"
    by (simp add: sample_isLogLevel_def)
  show ?thesis
    using h
      log_level_change
        [where isLogLevel = sample_isLogLevel and react = count_calls and w = fresh
           and v = "Some \<lparr>option_label = ''info'', option_value = ''info''\<rparr>", OF h]
      log_level_change
        [where isLogLevel = sample_isLogLevel and react = count_calls and w = fresh
           and v = "Some \<lparr>option_label = ''loud'', option_value = ''loud''\<rparr>", OF h]
      log_level_change
        [where isLogLevel = sample_isLogLevel and react = count_calls and w = fresh
           and v = None, OF h]
    by (simp add: onChange_def sample_isLogLevel_def dispatch_def perform_def fresh_def
        count_calls_def)
qed

subsection \<open>The opacity control\<close>

text \<open>
  C3, as the claim states it: on blur a local opacity that is NaN is reset to 100. With
  no entity selected the handler returns before it looks at the local opacity, which
  stays NaN.
\<close>

theorem blur_nan_without_entity_keeps_nan:
  "js_isNaN NaN
   \<and> fst (onBlur count_calls None NaN fresh) = NaN
   \<and> fst (onBlur count_calls None NaN fresh) \<noteq> Fin 100
   \<and> fst (onKeyDown count_calls None NaN ''Enter'' fresh) \<noteq> Fin 100"
  by (simp add: onBlur_def onKeyDown_def)

text \<open>
  C3, amended. With an entity selected, blur on a local opacity that is NaN resets the
  local opacity to 100 and makes no call, so the world is as it was; on any other local
  opacity it makes one call, the dispatch of \<open>entityOpacityChanged\<close> for the selected
  entity with the local opacity divided by 100 and clamped to the interval from 0 to 1.
  A key-down of Enter does what blur does. With no entity selected, blur returns at
  once: a local opacity that is NaN is not reset, and no call is made.
\<close>

theorem opacity_blur_selected:
  "(js_isNaN localOpacity \<longrightarrow> onBlur react (Some e) localOpacity w = (Fin 100, w))
   \<and> (\<not> js_isNaN localOpacity \<longrightarrow>
        snd (onBlur react (Some e) localOpacity w)
          = perform react
              (Dispatch (entityOpacityChanged e
                 (clamp (js_div localOpacity (Fin 100)) (Fin 0) (Fin 1))))
              w)
   \<and> onKeyDown react sel localOpacity ''Enter'' w = onBlur react sel localOpacity w
   \<and> (js_isNaN localOpacity \<longrightarrow> onBlur react None localOpacity w = (localOpacity, w))
   \<and> snd (onBlur react None localOpacity w) = w"
  by (simp add: onBlur_def onKeyDown_def dispatch_def)

theorem opacity_blur_selected_witness:
  "js_isNaN NaN
   \<and> \<not> js_isNaN (Fin 250)
   \<and> onBlur count_calls (Some 7) NaN fresh = (Fin 100, fresh)
   \<and> snd (onBlur count_calls (Some 7) (Fin 250) fresh)
       = \<lparr>store = 1, calls = [Dispatch (entityOpacityChanged 7 (Fin 1))]\<rparr>
   \<and> snd (onKeyDown count_calls (Some 7) (Fin 40) ''Enter'' fresh)
       = \<lparr>store = 1, calls = [Dispatch (entityOpacityChanged 7 (Fin 0.4))]\<rparr>
   \<and> onBlur count_calls None NaN fresh = (NaN, fresh)"
  using opacity_blur_selected [of NaN count_calls 7 fresh "Some 7"]
        opacity_blur_selected [of "Fin 250" count_calls 7 fresh "Some 7"]
        opacity_blur_selected [of "Fin 40" count_calls 7 fresh "Some 7"]
  by (simp add: clamp_def perform_def fresh_def count_calls_def)

text \<open>
  The opacity that the handlers dispatch when the slider's value lies between 0 and 100
  and snapping gives the value itself or one of the candidates, and the opacity that blur
  dispatches, lie between 0 and 1.
\<close>

lemma slider_in_range_opacity_ok:
  assumes "0 \<le> x" "x \<le> 100"
    and "snapToNearest (Fin x) snapCandidates (Fin 2) \<in> insert (Fin x) (set snapCandidates)"
  shows "list_all opacity_ok
           (new_calls w (onChangeSlider react snapToNearest shift sel (Fin x) w))"
proof (cases sel)
  case None
  then show ?thesis by (simp add: onChangeSlider_def new_calls_same)
next
  case (Some e)
  have "in_unit_interval
          (mapSliderValueToOpacity
             (if \<not> shift then snapToNearest (Fin x) snapCandidates (Fin 2) else Fin x))"
    using assms by (auto simp: snapCandidates_eq mapSliderValueToOpacity_def)
  then show ?thesis
    using Some by (simp add: onChangeSlider_def dispatch_def new_calls_perform Let_def)
qed

lemma blur_opacity_ok:
  "list_all opacity_ok (new_calls w (snd (onBlur react sel localOpacity w)))"
proof (cases sel)
  case None
  then show ?thesis by (simp add: onBlur_def new_calls_same)
next
  case (Some e)
  then show ?thesis
    by (simp add: onBlur_def dispatch_def new_calls_perform new_calls_same clamp_unit
        js_div_100_isNaN)
qed

text \<open>
  C7 says that every \<open>entityOpacityChanged\<close> action of the opacity control carries an
  opacity between 0 and 1. The default value that the control gives its slider is
  \<open>mapOpacityToSliderValue\<close> of 100, which is 10000 and not 100; the slider handler does not
  clamp, so at that value, with snapping or without, it dispatches the opacity 100.
\<close>

theorem slider_default_value_opacity_out_of_range:
  "sliderDefaultValue = Fin 10000
   \<and> new_calls fresh (onChangeSlider count_calls sample_snap True (Some 7) sliderDefaultValue fresh)
       = [Dispatch (entityOpacityChanged 7 (Fin 100))]
   \<and> new_calls fresh (onChangeSlider count_calls sample_snap False (Some 7) sliderDefaultValue fresh)
       = [Dispatch (entityOpacityChanged 7 (Fin 100))]
   \<and> \<not> in_unit_interval (Fin 100)
   \<and> \<not> list_all opacity_ok
         (new_calls fresh
            (onChangeSlider count_calls sample_snap True (Some 7) sliderDefaultValue fresh))"
  by (simp add: sliderDefaultValue_eq snapCandidates_eq onChangeSlider_def dispatch_def
      new_calls_perform mapSliderValueToOpacity_def Let_def)

text \<open>
  C8. With no entity selected, a change of the slider, a blur of the number input and a
  key-down on it, Enter included, make no call: the world is as it was, and so is the
  local opacity.
\<close>

theorem no_entity_no_dispatch:
  "onChangeSlider react snapToNearest shift None opacity w = w
   \<and> onBlur react None localOpacity w = (localOpacity, w)
   \<and> onKeyDown react None localOpacity key w = (localOpacity, w)"
  by (simp add: onChangeSlider_def onBlur_def onKeyDown_def)

subsection \<open>The frame of all handlers\<close>

text \<open>
  C6. No handler of the four files writes the store's state itself. After a click on an
  add-entity button, a change of the log level combobox, a change of the opacity slider,
  a blur or a key-down of the opacity input, and a run of the listener on any action, the
  calls made before are still there, and the store's state is what the store's own
  reactions to the calls the handler has added, dispatches and the reset of the request,
  have made of the state before.
\<close>

theorem handlers_change_store_only_through_calls:
  "only_calls react w (onClick react dca dipa b w)
   \<and> (case onChange react isLogLevel v w of Inl e \<Rightarrow> True | Inr w' \<Rightarrow> only_calls react w w')
   \<and> only_calls react w (onChangeSlider react snapToNearest shift sel opacity w)
   \<and> only_calls react w (snd (onBlur react sel localOpacity w))
   \<and> only_calls react w (snd (onKeyDown react sel localOpacity key w))
   \<and> only_calls react' u (addEnqueueRequestedNodes react' bg bw a u)"
proof -
  have 1: "only_calls react w (onClick react dca dipa b w)"
    by (cases b)
      (simp_all add: addInpaintMask_def addRegionalGuidance_def addRasterLayer_def
        addControlLayer_def addIPAdapter_def dispatch_def only_calls_perform)
  have 2: "case onChange react isLogLevel v w of
             Inl e \<Rightarrow> True | Inr w' \<Rightarrow> only_calls react w w'"
    by (cases v) (simp_all add: onChange_def dispatch_def only_calls_perform only_calls_refl)
  have 3: "only_calls react w (onChangeSlider react snapToNearest shift sel opacity w)"
    by (cases sel)
      (simp_all add: onChangeSlider_def dispatch_def only_calls_perform only_calls_refl Let_def)
  have 4: "only_calls react w (snd (onBlur react sel localOpacity w))"
    by (cases sel) (simp_all add: onBlur_def dispatch_def only_calls_perform only_calls_refl)
  have 5: "only_calls react w (snd (onKeyDown react sel localOpacity key w))"
    using 4 by (simp add: onKeyDown_def only_calls_refl)
  have 6: "only_calls react' u (addEnqueueRequestedNodes react' bg bw a u)"
  proof (cases "predicate a")
    case True
    then obtain p where "a = enqueueRequested ''nodes'' p"
      using predicate_iff by blast
    then show ?thesis
      by (simp add: listener_nodes effect_eq only_calls_perform2)
  next
    case False
    then show ?thesis
      by (simp add: listener_other only_calls_refl)
  qed
  from 1 2 3 4 5 6 show ?thesis by blast
qed

end
